theory Spec2Isabelle
  imports Main "HOL-Library.Sublist"
begin

section \<open>Scalar parameters of a pipeline: \<^verbatim>\<open>src/Param.h\<close>\<close>

text \<open>
  \<^verbatim>\<open>Param.h\<close> declares the class template \<^verbatim>\<open>Param<T>\<close> and the function
  \<^verbatim>\<open>user_context_value\<close>. Everything it calls (\<^verbatim>\<open>Type\<close>, \<^verbatim>\<open>Expr\<close>,
  \<^verbatim>\<open>Internal::Cast\<close>, \<^verbatim>\<open>Internal::Variable\<close>, \<^verbatim>\<open>Internal::Parameter\<close>,
  \<^verbatim>\<open>Argument\<close>, \<^verbatim>\<open>user_assert\<close>, \<^verbatim>\<open>make_entity_name\<close>) lives in other headers.
  Those collaborators are modelled first, from the interface the specification gives
  them; the members of \<^verbatim>\<open>Param<T>\<close> follow, statement by statement.
\<close>

subsection \<open>Collaborators\<close>

text \<open>
  Modelled from the spec: the type-tag system (\<^verbatim>\<open>Type\<close>, \<^verbatim>\<open>type_of<T>()\<close>,
  \<^verbatim>\<open>Handle()\<close>) is not in \<^verbatim>\<open>Param.h\<close>. A tag is a kind with a bit width, or the
  opaque handle tag; tags are compared with \<open>=\<close>. The tag \<^verbatim>\<open>type_of<T>()\<close> of a
  handle is a field of the handle below.
\<close>

datatype type_tag = Int_t nat | UInt_t nat | Float_t nat | Handle

text \<open>
  Parameter records live in a store and are referred to by address: a
  \<^verbatim>\<open>Internal::Parameter\<close> is a reference-counted handle, so copies of it hold the
  same address.
\<close>

type_synonym addr = nat

text \<open>
  Modelled from the spec: the IR expression type \<^verbatim>\<open>Expr\<close> is not in \<^verbatim>\<open>Param.h\<close>.
  It has the default-constructed undefined sentinel \<^verbatim>\<open>Expr()\<close>, literals, cast
  nodes (\<^verbatim>\<open>Internal::Cast::make(type, expr)\<close>) and named variables over a
  parameter record (\<^verbatim>\<open>Internal::Variable::make(type, name, param)\<close>). The type
  \<open>'v\<close> is the type of scalar values.
\<close>

datatype 'v Expr =
    Undefined
  | Literal type_tag 'v
  | Cast type_tag "'v Expr"
  | Variable type_tag string addr

definition Cast_make :: "type_tag \<Rightarrow> 'v Expr \<Rightarrow> 'v Expr" where
  "Cast_make t e = Cast t e"

definition Variable_make :: "type_tag \<Rightarrow> string \<Rightarrow> addr \<Rightarrow> 'v Expr" where
  "Variable_make t n p = Variable t n p"

text \<open>
  Modelled from the spec: \<^verbatim>\<open>Expr::type()\<close> is not in \<^verbatim>\<open>Param.h\<close>. Every node
  carries its tag. The undefined sentinel holds no node, and neither the specification
  nor \<^verbatim>\<open>Param.h\<close> says what reading its type does, so the outcome of that one
  read is the parameter \<open>ut\<close>: \<open>None\<close> when the read faults, \<open>Some u\<close> when it
  yields the tag \<open>u\<close>. The result \<open>None\<close> of \<open>Expr_type\<close> is the fault.
\<close>

fun Expr_type :: "type_tag option \<Rightarrow> 'v Expr \<Rightarrow> type_tag option" where
  "Expr_type ut Undefined = ut"
| "Expr_type ut (Literal t v) = Some t"
| "Expr_type ut (Cast t e) = Some t"
| "Expr_type ut (Variable t n p) = Some t"

text \<open>The record a variable node refers to (no record for the other nodes).\<close>

fun Variable_param :: "'v Expr \<Rightarrow> addr option" where
  "Variable_param (Variable t n p) = Some p"
| "Variable_param e = None"

text \<open>
  Modelled from the spec: the shared record behind \<^verbatim>\<open>Internal::Parameter\<close> is not
  in \<^verbatim>\<open>Param.h\<close>. It holds the type, the output flag and the dimensions given at
  creation, the name and whether it was given explicitly, the scalar slot, the
  default value, and the two bounds. An unset slot or default is \<open>None\<close>; an unset
  bound is the undefined sentinel.
\<close>

record 'v ParameterContents =
  pc_type :: type_tag
  pc_is_output :: bool
  pc_dimensions :: int
  pc_name :: string
  pc_is_explicit_name :: bool
  pc_value :: "'v option"
  pc_default_value :: "'v option"
  pc_min_value :: "'v Expr"
  pc_max_value :: "'v Expr"

text \<open>
  The store: the record at every address, and the next address to hand out. A handle
  keeps its record alive, so a handle's address always holds its record.
\<close>

record 'v store =
  records :: "addr \<Rightarrow> 'v ParameterContents"
  next_addr :: addr

text \<open>
  Modelled from the spec: \<^verbatim>\<open>Internal::Parameter\<close>'s constructor and members
  are not in \<^verbatim>\<open>Param.h\<close>. Creation allocates a new record with no value, no
  bounds and no default; the setters store, the getters read, and none of them
  validates anything.
\<close>

definition Parameter ::
  "type_tag \<Rightarrow> bool \<Rightarrow> int \<Rightarrow> string \<Rightarrow> bool \<Rightarrow> 'v store \<Rightarrow> addr \<times> 'v store" where
  "Parameter t is_output d n is_explicit s =
     (next_addr s,
      s\<lparr>records := (records s)(next_addr s :=
           \<lparr>pc_type = t, pc_is_output = is_output, pc_dimensions = d, pc_name = n,
            pc_is_explicit_name = is_explicit, pc_value = None, pc_default_value = None,
            pc_min_value = Undefined, pc_max_value = Undefined\<rparr>),
        next_addr := Suc (next_addr s)\<rparr>)"

definition Parameter_name :: "addr \<Rightarrow> 'v store \<Rightarrow> string" where
  "Parameter_name a s = pc_name (records s a)"

definition Parameter_is_explicit_name :: "addr \<Rightarrow> 'v store \<Rightarrow> bool" where
  "Parameter_is_explicit_name a s = pc_is_explicit_name (records s a)"

text \<open>
  Modelled from the spec: \<^verbatim>\<open>Parameter::get_scalar\<close> and
  \<^verbatim>\<open>Parameter::set_scalar\<close> are not in \<^verbatim>\<open>Param.h\<close>. \<^verbatim>\<open>set_scalar\<close>
  "stores value into the scalar slot", with no range validation, and a later
  \<^verbatim>\<open>get_scalar\<close> "returns the current stored value"; \<open>None\<close> is the slot
  that was never written.
\<close>

definition Parameter_get_scalar :: "addr \<Rightarrow> 'v store \<Rightarrow> 'v option" where
  "Parameter_get_scalar a s = pc_value (records s a)"

definition Parameter_set_scalar :: "addr \<Rightarrow> 'v \<Rightarrow> 'v store \<Rightarrow> 'v store" where
  "Parameter_set_scalar a v s =
     s\<lparr>records := (records s)(a := (records s a)\<lparr>pc_value := Some v\<rparr>)\<rparr>"

definition Parameter_set_default :: "addr \<Rightarrow> 'v \<Rightarrow> 'v store \<Rightarrow> 'v store" where
  "Parameter_set_default a v s =
     s\<lparr>records := (records s)(a := (records s a)\<lparr>pc_default_value := Some v\<rparr>)\<rparr>"

definition Parameter_set_min_value :: "addr \<Rightarrow> 'v Expr \<Rightarrow> 'v store \<Rightarrow> 'v store" where
  "Parameter_set_min_value a e s =
     s\<lparr>records := (records s)(a := (records s a)\<lparr>pc_min_value := e\<rparr>)\<rparr>"

definition Parameter_set_max_value :: "addr \<Rightarrow> 'v Expr \<Rightarrow> 'v store \<Rightarrow> 'v store" where
  "Parameter_set_max_value a e s =
     s\<lparr>records := (records s)(a := (records s a)\<lparr>pc_max_value := e\<rparr>)\<rparr>"

definition Parameter_get_min_value :: "addr \<Rightarrow> 'v store \<Rightarrow> 'v Expr" where
  "Parameter_get_min_value a s = pc_min_value (records s a)"

definition Parameter_get_max_value :: "addr \<Rightarrow> 'v store \<Rightarrow> 'v Expr" where
  "Parameter_get_max_value a s = pc_max_value (records s a)"

text \<open>
  Modelled from the spec: \<^verbatim>\<open>Parameter::get_scalar_expr\<close> is "an IR
  literal-expression view of the current default/value": the literal of the default
  when one is stored, else the literal of the value, else the undefined sentinel.
\<close>

definition Parameter_get_scalar_expr :: "addr \<Rightarrow> 'v store \<Rightarrow> 'v Expr" where
  "Parameter_get_scalar_expr a s =
     (case pc_default_value (records s a) of
        Some d \<Rightarrow> Literal (pc_type (records s a)) d
      | None \<Rightarrow>
          (case pc_value (records s a) of
             Some v \<Rightarrow> Literal (pc_type (records s a)) v
           | None \<Rightarrow> Undefined))"

text \<open>
  Modelled from the spec: the signature-argument descriptor \<^verbatim>\<open>Argument\<close> and its
  kind tag are not in \<^verbatim>\<open>Param.h\<close>. The descriptor is built from a name, a kind,
  a type, a rank, and the default, minimum and maximum expressions.
\<close>

datatype argument_kind = InputScalar | InputBuffer | OutputBuffer

record 'v Argument =
  argument_name :: string
  argument_kind_of :: argument_kind
  argument_type :: type_tag
  argument_dimensions :: int
  argument_def :: "'v Expr"
  argument_min :: "'v Expr"
  argument_max :: "'v Expr"

definition Argument ::
  "string \<Rightarrow> argument_kind \<Rightarrow> type_tag \<Rightarrow> int \<Rightarrow> 'v Expr \<Rightarrow> 'v Expr \<Rightarrow> 'v Expr \<Rightarrow> 'v Argument" where
  "Argument n k t d df mn mx =
     \<lparr>argument_name = n, argument_kind_of = k, argument_type = t, argument_dimensions = d,
      argument_def = df, argument_min = mn, argument_max = mx\<rparr>"

datatype 'v ExternFuncArgument = ExternFuncArgument "'v Expr"

subsection \<open>Failures and the sequencing of statements\<close>

text \<open>
  A failed \<^verbatim>\<open>user_assert\<close> in \<^verbatim>\<open>check_name\<close> is the error
  \<open>ReservedNameError\<close> with the streamed message; a faulting read of an
  expression's type is \<open>UndefinedExprType\<close>. A member that can fail returns its
  outcome together with the store as it stands when the member returns or fails;
  \<open>then_do\<close> is the semicolon: the second statement runs only when the first
  succeeded.
\<close>

datatype error = ReservedNameError string | UndefinedExprType

type_synonym ('a, 'v) action = "'v store \<Rightarrow> (error + 'a) \<times> 'v store"

definition then_do :: "('a, 'v) action \<Rightarrow> ('a \<Rightarrow> ('b, 'v) action) \<Rightarrow> ('b, 'v) action" where
  "then_do m f s = (case m s of (Inl e, s') \<Rightarrow> (Inl e, s') | (Inr x, s') \<Rightarrow> f x s')"

subsection \<open>The class \<^verbatim>\<open>Param<T>\<close>\<close>

text \<open>
  A handle: the tag \<^verbatim>\<open>type_of<T>()\<close> of its template argument, and the member
  \<^verbatim>\<open>param\<close>, the reference to its record.
\<close>

record Param =
  type_of :: type_tag
  param :: addr

text \<open>
  Modelled from the spec: the copy of an \<^verbatim>\<open>Internal::Parameter\<close> is not in
  \<^verbatim>\<open>Param.h\<close>, which only calls the member "a reference-counted handle on the
  internal parameter object". A copy shares the record ("copy = share, not
  duplicate"): the implicit copy constructor of \<^verbatim>\<open>Param<T>\<close> copies the member
  \<^verbatim>\<open>param\<close>, so the copy holds the same address.
\<close>

definition Param_copy :: "Param \<Rightarrow> Param" where
  "Param_copy p = \<lparr>type_of = type_of p, param = param p\<rparr>"

text \<open>The text streamed into \<^verbatim>\<open>user_assert\<close> by \<^verbatim>\<open>check_name\<close>, piece by piece.\<close>

definition check_name_message :: string where
  \<open>check_name_message =
     ''Param<void*>("__user_context") '' @
     ''is no longer used to control whether Halide functions take explicit '' @
     ''user_context arguments. Use set_custom_user_context() when jitting, '' @
     ''or add Target::UserContext to the Target feature set when compiling ahead of time.''\<close>

definition check_name :: "Param \<Rightarrow> (unit, 'v) action" where
  "check_name p s =
     (if Parameter_name (param p) s \<noteq> ''__user_context'' then (Inr (), s)
      else (Inl (ReservedNameError check_name_message), s))"

definition name_Param :: "Param \<Rightarrow> 'v store \<Rightarrow> string" where
  "name_Param p s = Parameter_name (param p) s"

definition is_explicit_name :: "Param \<Rightarrow> 'v store \<Rightarrow> bool" where
  "is_explicit_name p s = Parameter_is_explicit_name (param p) s"

definition get_Param :: "Param \<Rightarrow> 'v store \<Rightarrow> 'v option" where
  "get_Param p s = Parameter_get_scalar (param p) s"

definition set_Param :: "Param \<Rightarrow> 'v \<Rightarrow> (unit, 'v) action" where
  "set_Param p val s = (Inr (), Parameter_set_scalar (param p) val s)"

definition type_Param :: "Param \<Rightarrow> type_tag" where
  "type_Param p = type_of p"

definition set_min_value :: "type_tag option \<Rightarrow> Param \<Rightarrow> 'v Expr \<Rightarrow> (unit, 'v) action" where
  "set_min_value ut p mn s =
     (case Expr_type ut mn of
        None \<Rightarrow> (Inl UndefinedExprType, s)
      | Some t \<Rightarrow>
          (Inr (),
           Parameter_set_min_value (param p)
             (if t \<noteq> type_of p then Cast_make (type_of p) mn else mn) s))"

definition set_max_value :: "type_tag option \<Rightarrow> Param \<Rightarrow> 'v Expr \<Rightarrow> (unit, 'v) action" where
  "set_max_value ut p mx s =
     (case Expr_type ut mx of
        None \<Rightarrow> (Inl UndefinedExprType, s)
      | Some t \<Rightarrow>
          (Inr (),
           Parameter_set_max_value (param p)
             (if t \<noteq> type_of p then Cast_make (type_of p) mx else mx) s))"

definition set_range :: "type_tag option \<Rightarrow> Param \<Rightarrow> 'v Expr \<Rightarrow> 'v Expr \<Rightarrow> (unit, 'v) action" where
  "set_range ut p mn mx = then_do (set_min_value ut p mn) (\<lambda>_. set_max_value ut p mx)"

definition get_min_value :: "Param \<Rightarrow> 'v store \<Rightarrow> 'v Expr" where
  "get_min_value p s = Parameter_get_min_value (param p) s"

definition get_max_value :: "Param \<Rightarrow> 'v store \<Rightarrow> 'v Expr" where
  "get_max_value p s = Parameter_get_max_value (param p) s"

definition set_default_value :: "Param \<Rightarrow> 'v \<Rightarrow> (unit, 'v) action" where
  "set_default_value p v s = (Inr (), Parameter_set_default (param p) v s)"

definition operator_Expr :: "Param \<Rightarrow> 'v store \<Rightarrow> 'v Expr" where
  "operator_Expr p s = Variable_make (type_of p) (name_Param p s) (param p)"

definition operator_ExternFuncArgument :: "Param \<Rightarrow> 'v store \<Rightarrow> 'v ExternFuncArgument" where
  "operator_ExternFuncArgument p s = ExternFuncArgument (operator_Expr p s)"

definition operator_Argument :: "Param \<Rightarrow> 'v store \<Rightarrow> 'v Argument" where
  "operator_Argument p s =
     Argument (name_Param p s) InputScalar (type_Param p) 0
       (Parameter_get_scalar_expr (param p) s)
       (Parameter_get_min_value (param p) s)
       (Parameter_get_max_value (param p) s)"

text \<open>
  The constructors. Each first initialises the member \<^verbatim>\<open>param\<close> with a new
  record, then runs its body. \<^verbatim>\<open>make_entity_name\<close> is not in \<^verbatim>\<open>Param.h\<close>: the
  namer is the parameter \<open>men\<close>, applied to the identity \<open>this\<close> of the handle
  under construction. A record created without the fifth argument has the
  explicit-name flag false.
\<close>

definition Param_init ::
  "type_tag \<Rightarrow> string \<Rightarrow> bool \<Rightarrow> 'v store \<Rightarrow> Param \<times> 'v store" where
  "Param_init T n is_explicit s =
     (case Parameter T False 0 n is_explicit s of
        (a, s') \<Rightarrow> (\<lparr>type_of = T, param = a\<rparr>, s'))"

definition Param_default ::
  "('i \<Rightarrow> string \<Rightarrow> char \<Rightarrow> string) \<Rightarrow> type_tag \<Rightarrow> 'i \<Rightarrow> (Param, 'v) action" where
  "Param_default men T this s =
     (case Param_init T (men this ''Halide::Param<?'' CHR ''p'') False s of
        (p, s') \<Rightarrow> (Inr p, s'))"

definition Param_string :: "type_tag \<Rightarrow> string \<Rightarrow> (Param, 'v) action" where
  "Param_string T n s =
     (case Param_init T n True s of
        (p, s') \<Rightarrow> then_do (check_name p) (\<lambda>_ s''. (Inr p, s'')) s')"

definition Param_cstr :: "type_tag \<Rightarrow> string \<Rightarrow> (Param, 'v) action" where
  "Param_cstr T n s =
     (case Param_init T n True s of
        (p, s') \<Rightarrow> then_do (check_name p) (\<lambda>_ s''. (Inr p, s'')) s')"

definition Param_val ::
  "('i \<Rightarrow> string \<Rightarrow> char \<Rightarrow> string) \<Rightarrow> type_tag \<Rightarrow> 'i \<Rightarrow> 'v \<Rightarrow> (Param, 'v) action" where
  "Param_val men T this val s =
     (case Param_init T (men this ''Halide::Param<?'' CHR ''p'') False s of
        (p, s') \<Rightarrow> then_do (set_Param p val) (\<lambda>_ s''. (Inr p, s'')) s')"

definition Param_string_val :: "type_tag \<Rightarrow> string \<Rightarrow> 'v \<Rightarrow> (Param, 'v) action" where
  "Param_string_val T n val s =
     (case Param_init T n True s of
        (p, s') \<Rightarrow>
          then_do (check_name p) (\<lambda>_.
          then_do (set_Param p val) (\<lambda>_ s''. (Inr p, s''))) s')"

definition Param_val_min_max ::
  "('i \<Rightarrow> string \<Rightarrow> char \<Rightarrow> string) \<Rightarrow> type_tag option \<Rightarrow> type_tag \<Rightarrow> 'i \<Rightarrow>
     'v \<Rightarrow> 'v Expr \<Rightarrow> 'v Expr \<Rightarrow> (Param, 'v) action" where
  "Param_val_min_max men ut T this val mn mx s =
     (case Param_init T (men this ''Halide::Param<?'' CHR ''p'') False s of
        (p, s') \<Rightarrow>
          then_do (set_range ut p mn mx) (\<lambda>_.
          then_do (set_Param p val) (\<lambda>_ s''. (Inr p, s''))) s')"

definition Param_string_val_min_max ::
  "type_tag option \<Rightarrow> type_tag \<Rightarrow> string \<Rightarrow> 'v \<Rightarrow> 'v Expr \<Rightarrow> 'v Expr \<Rightarrow> (Param, 'v) action" where
  "Param_string_val_min_max ut T n val mn mx s =
     (case Param_init T n True s of
        (p, s') \<Rightarrow>
          then_do (check_name p) (\<lambda>_.
          then_do (set_range ut p mn mx) (\<lambda>_.
          then_do (set_Param p val) (\<lambda>_ s''. (Inr p, s'')))) s')"

subsection \<open>The implicit user context\<close>

definition user_context_value :: "('v Expr, 'v) action" where
  "user_context_value s =
     (case Parameter Handle False 0 ''__user_context'' True s of
        (a, s') \<Rightarrow> (Inr (Variable_make Handle ''__user_context'' a), s'))"

text \<open>A store in which nothing has been created yet, for concrete runs.\<close>

definition blank_contents :: "'v ParameterContents" where
  "blank_contents =
     \<lparr>pc_type = Handle, pc_is_output = False, pc_dimensions = 0, pc_name = [],
      pc_is_explicit_name = False, pc_value = None, pc_default_value = None,
      pc_min_value = Undefined, pc_max_value = Undefined\<rparr>"

definition empty_store :: "'v store" where
  "empty_store = \<lparr>records = (\<lambda>a. blank_contents), next_addr = 0\<rparr>"

subsection \<open>Observations used in the statements\<close>

text \<open>The record an accessor's result refers to, when the accessor succeeded.\<close>

definition result_param :: "error + 'v Expr \<Rightarrow> addr option" where
  "result_param r = (case r of Inl e \<Rightarrow> None | Inr e \<Rightarrow> Variable_param e)"

text \<open>What a handle shows of its record: the minimum, the maximum and the value.\<close>

definition observe :: "Param \<Rightarrow> 'v store \<Rightarrow> 'v Expr \<times> 'v Expr \<times> 'v option" where
  "observe p s = (get_min_value p s, get_max_value p s, get_Param p s)"

section \<open>Properties\<close>

subsection \<open>Creation of records\<close>

lemma next_addr_empty_store: "next_addr empty_store = 0"
  by (simp add: empty_store_def)

lemma Param_init_result:
  "Param_init T n ex s =
     (\<lparr>type_of = T, param = next_addr s\<rparr>,
      s\<lparr>records := (records s)(next_addr s :=
           \<lparr>pc_type = T, pc_is_output = False, pc_dimensions = 0,
            pc_name = n, pc_is_explicit_name = ex, pc_value = None,
            pc_default_value = None, pc_min_value = Undefined, pc_max_value = Undefined\<rparr>),
        next_addr := Suc (next_addr s)\<rparr>)"
  by (simp add: Param_init_def Parameter_def)

lemma user_context_value_result:
  "user_context_value s =
     (Inr (Variable Handle ''__user_context'' (next_addr s)),
      s\<lparr>records := (records s)(next_addr s :=
           \<lparr>pc_type = Handle, pc_is_output = False, pc_dimensions = 0,
            pc_name = ''__user_context'', pc_is_explicit_name = True, pc_value = None,
            pc_default_value = None, pc_min_value = Undefined, pc_max_value = Undefined\<rparr>),
        next_addr := Suc (next_addr s)\<rparr>)"
  by (simp add: user_context_value_def Parameter_def Variable_make_def)

subsection \<open>Reading a record after a write\<close>

lemma get_min_value_set_min [simp]:
  "get_min_value p (Parameter_set_min_value a e s) = (if a = param p then e else get_min_value p s)"
  by (simp add: get_min_value_def Parameter_get_min_value_def Parameter_set_min_value_def)

lemma get_max_value_set_max [simp]:
  "get_max_value p (Parameter_set_max_value a e s) = (if a = param p then e else get_max_value p s)"
  by (simp add: get_max_value_def Parameter_get_max_value_def Parameter_set_max_value_def)

lemma get_max_value_set_min [simp]:
  "get_max_value p (Parameter_set_min_value a e s) = get_max_value p s"
  by (simp add: get_max_value_def Parameter_get_max_value_def Parameter_set_min_value_def)

lemma get_min_value_set_max [simp]:
  "get_min_value p (Parameter_set_max_value a e s) = get_min_value p s"
  by (simp add: get_min_value_def Parameter_get_min_value_def Parameter_set_max_value_def)

lemma get_Param_set_min [simp]:
  "get_Param p (Parameter_set_min_value a e s) = get_Param p s"
  by (simp add: get_Param_def Parameter_get_scalar_def Parameter_set_min_value_def)

lemma get_Param_set_max [simp]:
  "get_Param p (Parameter_set_max_value a e s) = get_Param p s"
  by (simp add: get_Param_def Parameter_get_scalar_def Parameter_set_max_value_def)

lemma get_Param_set_scalar [simp]:
  "get_Param p (Parameter_set_scalar a v s) = (if a = param p then Some v else get_Param p s)"
  by (simp add: get_Param_def Parameter_get_scalar_def Parameter_set_scalar_def)

lemma get_min_value_set_scalar [simp]:
  "get_min_value p (Parameter_set_scalar a v s) = get_min_value p s"
  by (simp add: get_min_value_def Parameter_get_min_value_def Parameter_set_scalar_def)

lemma get_max_value_set_scalar [simp]:
  "get_max_value p (Parameter_set_scalar a v s) = get_max_value p s"
  by (simp add: get_max_value_def Parameter_get_max_value_def Parameter_set_scalar_def)

lemma observe_Param_init:
  "observe (fst (Param_init T n ex s)) (snd (Param_init T n ex s)) = (Undefined, Undefined, None)"
  by (simp add: observe_def Param_init_result get_min_value_def get_max_value_def get_Param_def
      Parameter_get_min_value_def Parameter_get_max_value_def Parameter_get_scalar_def)

subsection \<open>The reserved name\<close>

lemma Param_string_reserved:
  "Param_string T ''__user_context'' s =
     (Inl (ReservedNameError check_name_message), snd (Param_init T ''__user_context'' True s))"
  by (simp add: Param_string_def Param_init_result then_do_def check_name_def Parameter_name_def)

lemma Param_cstr_reserved:
  "Param_cstr T ''__user_context'' s =
     (Inl (ReservedNameError check_name_message), snd (Param_init T ''__user_context'' True s))"
  by (simp add: Param_cstr_def Param_init_result then_do_def check_name_def Parameter_name_def)

lemma Param_string_val_reserved:
  "Param_string_val T ''__user_context'' val s =
     (Inl (ReservedNameError check_name_message), snd (Param_init T ''__user_context'' True s))"
  by (simp add: Param_string_val_def Param_init_result then_do_def check_name_def
      Parameter_name_def)

lemma Param_string_val_min_max_reserved:
  "Param_string_val_min_max ut T ''__user_context'' val mn mx s =
     (Inl (ReservedNameError check_name_message), snd (Param_init T ''__user_context'' True s))"
  by (simp add: Param_string_val_min_max_def Param_init_result then_do_def check_name_def
      Parameter_name_def)

lemma check_name_message_old_meaning:
  "sublist
     ''is no longer used to control whether Halide functions take explicit user_context arguments''
     check_name_message"
  by code_simp

lemma check_name_message_jit:
  "sublist ''Use set_custom_user_context() when jitting'' check_name_message"
  by code_simp

lemma check_name_message_aot:
  "sublist
     ''add Target::UserContext to the Target feature set when compiling ahead of time''
     check_name_message"
  by code_simp

lemma Param_string_other:
  "n \<noteq> ''__user_context'' \<Longrightarrow>
   Param_string T n s = (Inr (fst (Param_init T n True s)), snd (Param_init T n True s))"
  by (simp add: Param_string_def Param_init_result then_do_def check_name_def Parameter_name_def)

lemma Param_cstr_other:
  "n \<noteq> ''__user_context'' \<Longrightarrow>
   Param_cstr T n s = (Inr (fst (Param_init T n True s)), snd (Param_init T n True s))"
  by (simp add: Param_cstr_def Param_init_result then_do_def check_name_def Parameter_name_def)

lemma Param_string_val_other:
  "n \<noteq> ''__user_context'' \<Longrightarrow>
   Param_string_val T n val s =
     (Inr (fst (Param_init T n True s)),
      Parameter_set_scalar (next_addr s) val (snd (Param_init T n True s)))"
  by (simp add: Param_string_val_def Param_init_result then_do_def check_name_def
      Parameter_name_def set_Param_def)

lemma Param_string_val_min_max_other:
  "n \<noteq> ''__user_context'' \<Longrightarrow>
   fst (Param_string_val_min_max ut T n val mn mx s) = Inr (fst (Param_init T n True s))
   \<or> fst (Param_string_val_min_max ut T n val mn mx s) = Inl UndefinedExprType"
  by (simp add: Param_string_val_min_max_def Param_init_result then_do_def check_name_def
      Parameter_name_def set_Param_def set_range_def set_min_value_def set_max_value_def
      split: option.splits)

text \<open>
  C1. Each of the four constructors that take a name (\<^verbatim>\<open>std::string\<close>,
  \<^verbatim>\<open>const char *\<close>, name and value, name, value and bounds) fails with
  \<open>ReservedNameError\<close> when the name is \<^verbatim>\<open>"__user_context"\<close>. The message says
  what the name used to mean (it "is no longer used to control whether Halide
  functions take explicit user_context arguments") and names the two replacements:
  \<^verbatim>\<open>set_custom_user_context()\<close> when jitting, \<^verbatim>\<open>Target::UserContext\<close> in the
  target's feature set when compiling ahead of time. Any other name passes the
  check: the three constructors without bounds return the handle of the new record,
  which carries that name and the explicit-name flag, and the constructor with
  bounds returns the handle unless reading the type of a bound faults; it never
  reports a name error.
\<close>

theorem reserved_name_rejected:
  "fst (Param_string T ''__user_context'' s) = Inl (ReservedNameError check_name_message)
   \<and> fst (Param_cstr T ''__user_context'' s) = Inl (ReservedNameError check_name_message)
   \<and> fst (Param_string_val T ''__user_context'' val s) =
       Inl (ReservedNameError check_name_message)
   \<and> fst (Param_string_val_min_max ut T ''__user_context'' val mn mx s) =
       Inl (ReservedNameError check_name_message)
   \<and> sublist
       ''is no longer used to control whether Halide functions take explicit user_context arguments''
       check_name_message
   \<and> sublist ''Use set_custom_user_context() when jitting'' check_name_message
   \<and> sublist
       ''add Target::UserContext to the Target feature set when compiling ahead of time''
       check_name_message
   \<and> (n \<noteq> ''__user_context'' \<longrightarrow>
        fst (Param_string T n s) = Inr \<lparr>type_of = T, param = next_addr s\<rparr>
      \<and> fst (Param_cstr T n s) = Inr \<lparr>type_of = T, param = next_addr s\<rparr>
      \<and> fst (Param_string_val T n val s) = Inr \<lparr>type_of = T, param = next_addr s\<rparr>
      \<and> (fst (Param_string_val_min_max ut T n val mn mx s) =
            Inr \<lparr>type_of = T, param = next_addr s\<rparr>
          \<or> fst (Param_string_val_min_max ut T n val mn mx s) = Inl UndefinedExprType)
      \<and> name_Param \<lparr>type_of = T, param = next_addr s\<rparr> (snd (Param_string T n s)) = n
      \<and> is_explicit_name \<lparr>type_of = T, param = next_addr s\<rparr> (snd (Param_string T n s)))"
proof -
  have rejected:
    "fst (Param_string T ''__user_context'' s) = Inl (ReservedNameError check_name_message)"
    "fst (Param_cstr T ''__user_context'' s) = Inl (ReservedNameError check_name_message)"
    "fst (Param_string_val T ''__user_context'' val s) =
       Inl (ReservedNameError check_name_message)"
    "fst (Param_string_val_min_max ut T ''__user_context'' val mn mx s) =
       Inl (ReservedNameError check_name_message)"
    by (simp_all add: Param_string_reserved Param_cstr_reserved Param_string_val_reserved
        Param_string_val_min_max_reserved)
  have accepted:
    "fst (Param_string T n s) = Inr \<lparr>type_of = T, param = next_addr s\<rparr>
      \<and> fst (Param_cstr T n s) = Inr \<lparr>type_of = T, param = next_addr s\<rparr>
      \<and> fst (Param_string_val T n val s) = Inr \<lparr>type_of = T, param = next_addr s\<rparr>
      \<and> (fst (Param_string_val_min_max ut T n val mn mx s) =
            Inr \<lparr>type_of = T, param = next_addr s\<rparr>
          \<or> fst (Param_string_val_min_max ut T n val mn mx s) = Inl UndefinedExprType)
      \<and> name_Param \<lparr>type_of = T, param = next_addr s\<rparr> (snd (Param_string T n s)) = n
      \<and> is_explicit_name \<lparr>type_of = T, param = next_addr s\<rparr> (snd (Param_string T n s))"
    if "n \<noteq> ''__user_context''"
    using that Param_string_val_min_max_other [OF that, of ut T val mn mx s]
    by (simp add: Param_string_other Param_cstr_other Param_string_val_other Param_init_result
        name_Param_def is_explicit_name_def Parameter_name_def Parameter_is_explicit_name_def)
  show ?thesis
    using rejected accepted check_name_message_old_meaning check_name_message_jit
      check_name_message_aot
    by blast
qed

theorem reserved_name_rejected_witness:
  "fst (Param_string (Int_t 32) ''__user_context'' (empty_store :: int store)) =
     Inl (ReservedNameError check_name_message)
   \<and> ''threshold'' \<noteq> ''__user_context''
   \<and> fst (Param_string (Int_t 32) ''threshold'' (empty_store :: int store)) =
       Inr \<lparr>type_of = Int_t 32, param = 0\<rparr>
   \<and> fst (Param_string_val (Int_t 32) ''threshold'' 5 (empty_store :: int store)) =
       Inr \<lparr>type_of = Int_t 32, param = 0\<rparr>
   \<and> name_Param \<lparr>type_of = Int_t 32, param = 0\<rparr>
        (snd (Param_string (Int_t 32) ''threshold'' (empty_store :: int store))) = ''threshold''"
  using reserved_name_rejected
    [where T = "Int_t 32" and n = "''threshold''" and s = "empty_store :: int store"
       and val = 5 and ut = None and mn = Undefined and mx = Undefined]
  by (simp add: next_addr_empty_store)

text \<open>
  C8. In the constructors that take a name and a value, or a name, a value and
  bounds, \<^verbatim>\<open>check_name()\<close> is the first statement of the body. With the reserved
  name both return the error together with the store exactly as the member
  initialiser left it: the new record shows no minimum, no maximum and no value,
  and every other record is as before.
\<close>

theorem reserved_name_checked_before_writes:
  "Param_string_val T ''__user_context'' val s =
     (Inl (ReservedNameError check_name_message), snd (Param_init T ''__user_context'' True s))
   \<and> Param_string_val_min_max ut T ''__user_context'' val mn mx s =
     (Inl (ReservedNameError check_name_message), snd (Param_init T ''__user_context'' True s))
   \<and> observe (fst (Param_init T ''__user_context'' True s))
        (snd (Param_init T ''__user_context'' True s)) = (Undefined, Undefined, None)
   \<and> fst (Param_init T ''__user_context'' True s) = \<lparr>type_of = T, param = next_addr s\<rparr>
   \<and> records (snd (Param_init T ''__user_context'' True s)) =
       (records s)(next_addr s :=
           \<lparr>pc_type = T, pc_is_output = False, pc_dimensions = 0,
            pc_name = ''__user_context'', pc_is_explicit_name = True, pc_value = None,
            pc_default_value = None, pc_min_value = Undefined, pc_max_value = Undefined\<rparr>)"
  by (simp add: Param_string_val_reserved Param_string_val_min_max_reserved observe_Param_init)
    (simp add: Param_init_result)

subsection \<open>Bounds\<close>

text \<open>Every expression but the undefined sentinel has a type that can be read.\<close>

lemma Expr_type_defined:
  "e \<noteq> Undefined \<Longrightarrow> \<exists>t. Expr_type ut e = Some t"
  by (cases e) simp_all

lemma set_min_value_typed:
  "Expr_type ut e = Some t \<Longrightarrow>
   set_min_value ut p e s =
     (Inr (),
      Parameter_set_min_value (param p) (if t \<noteq> type_of p then Cast (type_of p) e else e) s)"
  by (simp add: set_min_value_def Cast_make_def)

lemma set_max_value_typed:
  "Expr_type ut e = Some t \<Longrightarrow>
   set_max_value ut p e s =
     (Inr (),
      Parameter_set_max_value (param p) (if t \<noteq> type_of p then Cast (type_of p) e else e) s)"
  by (simp add: set_max_value_def Cast_make_def)

lemma set_range_typed:
  "Expr_type ut mn = Some tm \<Longrightarrow> Expr_type ut mx = Some tx \<Longrightarrow>
   set_range ut p mn mx s =
     (Inr (),
      Parameter_set_max_value (param p) (if tx \<noteq> type_of p then Cast (type_of p) mx else mx)
        (Parameter_set_min_value (param p)
           (if tm \<noteq> type_of p then Cast (type_of p) mn else mn) s))"
  by (simp add: set_range_def then_do_def set_min_value_typed set_max_value_typed)

lemma Param_val_min_max_typed:
  "Expr_type ut mn = Some tm \<Longrightarrow> Expr_type ut mx = Some tx \<Longrightarrow>
   Param_val_min_max men ut T this val mn mx s =
     (Inr (fst (Param_init T (men this ''Halide::Param<?'' CHR ''p'') False s)),
      snd (set_Param (fst (Param_init T (men this ''Halide::Param<?'' CHR ''p'') False s)) val
        (snd (set_range ut (fst (Param_init T (men this ''Halide::Param<?'' CHR ''p'') False s))
                mn mx (snd (Param_init T (men this ''Halide::Param<?'' CHR ''p'') False s))))))"
  by (simp add: Param_val_min_max_def then_do_def set_range_typed set_Param_def
      split: prod.splits)

lemma Param_string_val_min_max_typed:
  "Expr_type ut mn = Some tm \<Longrightarrow> Expr_type ut mx = Some tx \<Longrightarrow>
   n \<noteq> ''__user_context'' \<Longrightarrow>
   Param_string_val_min_max ut T n val mn mx s =
     (Inr (fst (Param_init T n True s)),
      snd (set_Param (fst (Param_init T n True s)) val
        (snd (set_range ut (fst (Param_init T n True s)) mn mx (snd (Param_init T n True s))))))"
  by (simp add: Param_string_val_min_max_def then_do_def set_range_typed set_Param_def
      check_name_def Parameter_name_def Param_init_result)

text \<open>
  C2. When the type of the expression \<open>e\<close> can be read (it is \<open>t\<close>),
  \<^verbatim>\<open>set_min_value(e)\<close> raises no error and stores \<open>e\<close> inside one cast node to the
  handle's tag if \<open>t\<close> differs from that tag, and \<open>e\<close> itself if \<open>t\<close> is that
  tag; either way the stored minimum has the handle's tag. The same holds for
  \<^verbatim>\<open>set_max_value\<close>.
\<close>

theorem bound_setters_cast_on_mismatch:
  assumes "Expr_type ut e = Some t"
  shows "fst (set_min_value ut p e s) = Inr ()
   \<and> get_min_value p (snd (set_min_value ut p e s)) =
       (if t \<noteq> type_of p then Cast (type_of p) e else e)
   \<and> Expr_type ut (get_min_value p (snd (set_min_value ut p e s))) = Some (type_of p)
   \<and> fst (set_max_value ut p e s) = Inr ()
   \<and> get_max_value p (snd (set_max_value ut p e s)) =
       (if t \<noteq> type_of p then Cast (type_of p) e else e)
   \<and> Expr_type ut (get_max_value p (snd (set_max_value ut p e s))) = Some (type_of p)"
  using assms by (simp add: set_min_value_typed set_max_value_typed)

theorem bound_setters_cast_on_mismatch_witness:
  "Expr_type None (Literal (Float_t 32) (7::int)) = Some (Float_t 32)
   \<and> Expr_type None (Literal (Int_t 32) (7::int)) = Some (Int_t 32)
   \<and> get_min_value \<lparr>type_of = Int_t 32, param = 0\<rparr>
        (snd (set_min_value None \<lparr>type_of = Int_t 32, param = 0\<rparr>
               (Literal (Float_t 32) 7) empty_store)) =
       Cast (Int_t 32) (Literal (Float_t 32) (7::int))
   \<and> get_max_value \<lparr>type_of = Int_t 32, param = 0\<rparr>
        (snd (set_max_value None \<lparr>type_of = Int_t 32, param = 0\<rparr>
               (Literal (Int_t 32) 7) empty_store)) =
       Literal (Int_t 32) (7::int)"
  using bound_setters_cast_on_mismatch
          [of None "Literal (Float_t 32) (7::int)" "Float_t 32"
              "\<lparr>type_of = Int_t 32, param = 0\<rparr>" empty_store]
        bound_setters_cast_on_mismatch
          [of None "Literal (Int_t 32) (7::int)" "Int_t 32"
              "\<lparr>type_of = Int_t 32, param = 0\<rparr>" empty_store]
  by simp

text \<open>
  C9. The setters read the type of their argument before anything else, also when
  the argument is the undefined sentinel. If that read faults the setter fails and
  the bound is not touched; if it yields a tag other than the handle's, the setter
  stores a cast node around the sentinel. So whatever the read of the sentinel's
  type does, the setters cannot leave the bound undefined, without a fault, for
  both a 32-bit integer handle and a handle of the opaque handle type.
\<close>

theorem undefined_bound_not_unbounded:
  "set_min_value None p Undefined s = (Inl UndefinedExprType, s)
   \<and> set_max_value None p Undefined s = (Inl UndefinedExprType, s)
   \<and> \<not> (fst (set_min_value ut \<lparr>type_of = Int_t 32, param = a\<rparr> Undefined s) = Inr ()
       \<and> get_min_value \<lparr>type_of = Int_t 32, param = a\<rparr>
            (snd (set_min_value ut \<lparr>type_of = Int_t 32, param = a\<rparr> Undefined s)) = Undefined
       \<and> fst (set_min_value ut \<lparr>type_of = Handle, param = a\<rparr> Undefined s) = Inr ()
       \<and> get_min_value \<lparr>type_of = Handle, param = a\<rparr>
            (snd (set_min_value ut \<lparr>type_of = Handle, param = a\<rparr> Undefined s)) = Undefined)
   \<and> \<not> (fst (set_max_value ut \<lparr>type_of = Int_t 32, param = a\<rparr> Undefined s) = Inr ()
       \<and> get_max_value \<lparr>type_of = Int_t 32, param = a\<rparr>
            (snd (set_max_value ut \<lparr>type_of = Int_t 32, param = a\<rparr> Undefined s)) = Undefined
       \<and> fst (set_max_value ut \<lparr>type_of = Handle, param = a\<rparr> Undefined s) = Inr ()
       \<and> get_max_value \<lparr>type_of = Handle, param = a\<rparr>
            (snd (set_max_value ut \<lparr>type_of = Handle, param = a\<rparr> Undefined s)) = Undefined)"
  by (cases ut) (auto simp add: set_min_value_def set_max_value_def Cast_make_def)

text \<open>
  The outcome of \<^verbatim>\<open>set_range\<close> and of the two constructors with bounds, for
  every argument: also when the type of a bound cannot be read, where the failing
  statement leaves behind what the statements before it wrote.
\<close>

lemma set_range_outcome:
  "set_range ut p mn mx s1 =
     (case Expr_type ut mn of
        None \<Rightarrow> (Inl UndefinedExprType, s1)
      | Some tm \<Rightarrow>
          (case Expr_type ut mx of
             None \<Rightarrow>
               (Inl UndefinedExprType,
                Parameter_set_min_value (param p)
                  (if tm \<noteq> type_of p then Cast (type_of p) mn else mn) s1)
           | Some tx \<Rightarrow>
               (Inr (),
                Parameter_set_max_value (param p)
                  (if tx \<noteq> type_of p then Cast (type_of p) mx else mx)
                  (Parameter_set_min_value (param p)
                     (if tm \<noteq> type_of p then Cast (type_of p) mn else mn) s1))))"
  by (simp add: set_range_def then_do_def set_min_value_def set_max_value_def Cast_make_def
      split: option.splits)

lemma Param_val_min_max_outcome:
  "Param_val_min_max men ut T this val mn mx s =
     (case Param_init T (men this ''Halide::Param<?'' CHR ''p'') False s of
        (q, s0) \<Rightarrow>
          (case set_range ut q mn mx s0 of
             (Inl e, s') \<Rightarrow> (Inl e, s')
           | (Inr u, s') \<Rightarrow> (Inr q, Parameter_set_scalar (param q) val s')))"
  by (simp add: Param_val_min_max_def then_do_def set_Param_def split: prod.splits sum.splits)

lemma Param_string_val_min_max_outcome:
  "n \<noteq> ''__user_context'' \<Longrightarrow>
   Param_string_val_min_max ut T n val mn mx s =
     (case Param_init T n True s of
        (q, s0) \<Rightarrow>
          (case set_range ut q mn mx s0 of
             (Inl e, s') \<Rightarrow> (Inl e, s')
           | (Inr u, s') \<Rightarrow> (Inr q, Parameter_set_scalar (param q) val s')))"
  by (simp add: Param_string_val_min_max_def then_do_def set_Param_def check_name_def
      Parameter_name_def Param_init_result split: prod.splits sum.splits)

lemma observe_fresh:
  "observe \<lparr>type_of = T, param = next_addr s\<rparr> (snd (Param_init T' n ex s)) =
     (Undefined, Undefined, None)"
  by (simp add: observe_def Param_init_result get_min_value_def get_max_value_def get_Param_def
      Parameter_get_min_value_def Parameter_get_max_value_def Parameter_get_scalar_def)

lemma observe_set_range_outcome:
  "observe p (snd (set_range ut p mn mx s1)) =
     (case Expr_type ut mn of
        None \<Rightarrow> observe p s1
      | Some tm \<Rightarrow>
          (case Expr_type ut mx of
             None \<Rightarrow>
               (if tm \<noteq> type_of p then Cast (type_of p) mn else mn,
                get_max_value p s1, get_Param p s1)
           | Some tx \<Rightarrow>
               (if tm \<noteq> type_of p then Cast (type_of p) mn else mn,
                if tx \<noteq> type_of p then Cast (type_of p) mx else mx, get_Param p s1)))"
  by (simp add: set_range_outcome observe_def split: option.splits)

lemma observe_set_min_value_outcome:
  "observe p (snd (set_min_value ut p mn s1)) =
     (case Expr_type ut mn of
        None \<Rightarrow> observe p s1
      | Some tm \<Rightarrow>
          (if tm \<noteq> type_of p then Cast (type_of p) mn else mn,
           get_max_value p s1, get_Param p s1))"
  by (simp add: set_min_value_def Cast_make_def observe_def split: option.splits)

lemma observe_Param_val_min_max:
  "observe \<lparr>type_of = T, param = next_addr s\<rparr>
     (snd (Param_val_min_max men ut T this val mn mx s)) =
     (case Expr_type ut mn of
        None \<Rightarrow> (Undefined, Undefined, None)
      | Some tm \<Rightarrow>
          (case Expr_type ut mx of
             None \<Rightarrow> (if tm \<noteq> T then Cast T mn else mn, Undefined, None)
           | Some tx \<Rightarrow>
               (if tm \<noteq> T then Cast T mn else mn,
                if tx \<noteq> T then Cast T mx else mx, Some val)))"
  using observe_fresh [of T s T "men this ''Halide::Param<?'' CHR ''p''" False]
  by (simp add: Param_val_min_max_outcome set_range_outcome Param_init_result observe_def
      split: option.splits)

lemma observe_Param_string_val_min_max:
  "n \<noteq> ''__user_context'' \<Longrightarrow>
   observe \<lparr>type_of = T, param = next_addr s\<rparr>
     (snd (Param_string_val_min_max ut T n val mn mx s)) =
     (case Expr_type ut mn of
        None \<Rightarrow> (Undefined, Undefined, None)
      | Some tm \<Rightarrow>
          (case Expr_type ut mx of
             None \<Rightarrow> (if tm \<noteq> T then Cast T mn else mn, Undefined, None)
           | Some tx \<Rightarrow>
               (if tm \<noteq> T then Cast T mn else mn,
                if tx \<noteq> T then Cast T mx else mx, Some val)))"
  using observe_fresh [of T s T n True]
  by (simp add: Param_string_val_min_max_outcome set_range_outcome Param_init_result observe_def
      split: option.splits)

lemma fst_Param_val_min_max:
  "fst (Param_val_min_max men ut T this val mn mx s) =
     (case Expr_type ut mn of
        None \<Rightarrow> Inl UndefinedExprType
      | Some tm \<Rightarrow>
          (case Expr_type ut mx of
             None \<Rightarrow> Inl UndefinedExprType
           | Some tx \<Rightarrow> Inr \<lparr>type_of = T, param = next_addr s\<rparr>))"
  by (simp add: Param_val_min_max_outcome set_range_outcome Param_init_result
      split: option.splits)

lemma fst_Param_string_val_min_max:
  "n \<noteq> ''__user_context'' \<Longrightarrow>
   fst (Param_string_val_min_max ut T n val mn mx s) =
     (case Expr_type ut mn of
        None \<Rightarrow> Inl UndefinedExprType
      | Some tm \<Rightarrow>
          (case Expr_type ut mx of
             None \<Rightarrow> Inl UndefinedExprType
           | Some tx \<Rightarrow> Inr \<lparr>type_of = T, param = next_addr s\<rparr>))"
  by (simp add: Param_string_val_min_max_outcome set_range_outcome Param_init_result
      split: option.splits)


text \<open>
  C6. Each constructor with a value and bounds (the named one for a name that is
  not reserved) runs \<^verbatim>\<open>set_range(min, max)\<close> and only then \<^verbatim>\<open>set(val)\<close>, and
  \<^verbatim>\<open>set_range\<close> runs \<^verbatim>\<open>set_min_value\<close> and only then \<^verbatim>\<open>set_max_value\<close>.
  The order shows in what a failure leaves behind. If the type of the minimum
  cannot be read, nothing has been written: the new record has no bounds and no
  value. If the type of the minimum can be read and that of the maximum cannot, the
  minimum has been written, the maximum and the value have not. If both can be
  read, the constructor returns the handle and the record shows both bounds and the
  value. So the value is never stored in a record that lacks a supplied bound.
\<close>

theorem bounds_written_before_value:
  assumes "n \<noteq> ''__user_context''"
  shows "set_range ut p mn mx s1 =
       (case Expr_type ut mn of
          None \<Rightarrow> (Inl UndefinedExprType, s1)
        | Some tm \<Rightarrow>
            (case Expr_type ut mx of
               None \<Rightarrow>
                 (Inl UndefinedExprType,
                  Parameter_set_min_value (param p)
                    (if tm \<noteq> type_of p then Cast (type_of p) mn else mn) s1)
             | Some tx \<Rightarrow>
                 (Inr (),
                  Parameter_set_max_value (param p)
                    (if tx \<noteq> type_of p then Cast (type_of p) mx else mx)
                    (Parameter_set_min_value (param p)
                       (if tm \<noteq> type_of p then Cast (type_of p) mn else mn) s1))))
   \<and> Param_val_min_max men ut T this val mn mx s =
       (case Param_init T (men this ''Halide::Param<?'' CHR ''p'') False s of
          (q, s0) \<Rightarrow>
            (case set_range ut q mn mx s0 of
               (Inl e, s') \<Rightarrow> (Inl e, s')
             | (Inr u, s') \<Rightarrow> (Inr q, Parameter_set_scalar (param q) val s')))
   \<and> Param_string_val_min_max ut T n val mn mx s =
       (case Param_init T n True s of
          (q, s0) \<Rightarrow>
            (case set_range ut q mn mx s0 of
               (Inl e, s') \<Rightarrow> (Inl e, s')
             | (Inr u, s') \<Rightarrow> (Inr q, Parameter_set_scalar (param q) val s')))
   \<and> observe p (snd (set_min_value ut p mn s1)) =
       (case Expr_type ut mn of
          None \<Rightarrow> observe p s1
        | Some tm \<Rightarrow>
            (if tm \<noteq> type_of p then Cast (type_of p) mn else mn,
             get_max_value p s1, get_Param p s1))
   \<and> observe p (snd (set_range ut p mn mx s1)) =
       (case Expr_type ut mn of
          None \<Rightarrow> observe p s1
        | Some tm \<Rightarrow>
            (case Expr_type ut mx of
               None \<Rightarrow>
                 (if tm \<noteq> type_of p then Cast (type_of p) mn else mn,
                  get_max_value p s1, get_Param p s1)
             | Some tx \<Rightarrow>
                 (if tm \<noteq> type_of p then Cast (type_of p) mn else mn,
                  if tx \<noteq> type_of p then Cast (type_of p) mx else mx, get_Param p s1)))
   \<and> fst (Param_val_min_max men ut T this val mn mx s) =
       (case Expr_type ut mn of
          None \<Rightarrow> Inl UndefinedExprType
        | Some tm \<Rightarrow>
            (case Expr_type ut mx of
               None \<Rightarrow> Inl UndefinedExprType
             | Some tx \<Rightarrow> Inr \<lparr>type_of = T, param = next_addr s\<rparr>))
   \<and> observe \<lparr>type_of = T, param = next_addr s\<rparr>
        (snd (Param_val_min_max men ut T this val mn mx s)) =
       (case Expr_type ut mn of
          None \<Rightarrow> (Undefined, Undefined, None)
        | Some tm \<Rightarrow>
            (case Expr_type ut mx of
               None \<Rightarrow> (if tm \<noteq> T then Cast T mn else mn, Undefined, None)
             | Some tx \<Rightarrow>
                 (if tm \<noteq> T then Cast T mn else mn,
                  if tx \<noteq> T then Cast T mx else mx, Some val)))
   \<and> fst (Param_string_val_min_max ut T n val mn mx s) =
       (case Expr_type ut mn of
          None \<Rightarrow> Inl UndefinedExprType
        | Some tm \<Rightarrow>
            (case Expr_type ut mx of
               None \<Rightarrow> Inl UndefinedExprType
             | Some tx \<Rightarrow> Inr \<lparr>type_of = T, param = next_addr s\<rparr>))
   \<and> observe \<lparr>type_of = T, param = next_addr s\<rparr>
        (snd (Param_string_val_min_max ut T n val mn mx s)) =
       (case Expr_type ut mn of
          None \<Rightarrow> (Undefined, Undefined, None)
        | Some tm \<Rightarrow>
            (case Expr_type ut mx of
               None \<Rightarrow> (if tm \<noteq> T then Cast T mn else mn, Undefined, None)
             | Some tx \<Rightarrow>
                 (if tm \<noteq> T then Cast T mn else mn,
                  if tx \<noteq> T then Cast T mx else mx, Some val)))"
  by (intro conjI set_range_outcome Param_val_min_max_outcome
      Param_string_val_min_max_outcome [OF assms] observe_set_min_value_outcome
      observe_set_range_outcome fst_Param_val_min_max observe_Param_val_min_max
      fst_Param_string_val_min_max [OF assms] observe_Param_string_val_min_max [OF assms])

theorem bounds_written_before_value_witness:
  "''threshold'' \<noteq> ''__user_context''
   \<and> fst (Param_string_val_min_max None (Int_t 32) ''threshold'' 5
            (Literal (Int_t 32) 0) (Literal (Float_t 32) 255) (empty_store :: int store)) =
       Inr \<lparr>type_of = Int_t 32, param = 0\<rparr>
   \<and> observe \<lparr>type_of = Int_t 32, param = 0\<rparr>
        (snd (Param_string_val_min_max None (Int_t 32) ''threshold'' 5
               (Literal (Int_t 32) 0) (Literal (Float_t 32) 255) (empty_store :: int store))) =
       (Literal (Int_t 32) 0, Cast (Int_t 32) (Literal (Float_t 32) 255), Some 5)
   \<and> fst (Param_string_val_min_max None (Int_t 32) ''threshold'' 5
            (Literal (Int_t 32) 0) Undefined (empty_store :: int store)) =
       Inl UndefinedExprType
   \<and> observe \<lparr>type_of = Int_t 32, param = 0\<rparr>
        (snd (Param_string_val_min_max None (Int_t 32) ''threshold'' 5
               (Literal (Int_t 32) 0) Undefined (empty_store :: int store))) =
       (Literal (Int_t 32) 0, Undefined, None)
   \<and> fst (Param_string_val_min_max None (Int_t 32) ''threshold'' 5
            Undefined (Literal (Int_t 32) 255) (empty_store :: int store)) =
       Inl UndefinedExprType
   \<and> observe \<lparr>type_of = Int_t 32, param = 0\<rparr>
        (snd (Param_string_val_min_max None (Int_t 32) ''threshold'' 5
               Undefined (Literal (Int_t 32) 255) (empty_store :: int store))) =
       (Undefined, Undefined, None)"
proof -
  have n: "''threshold'' \<noteq> ''__user_context''"
    by simp
  note inst = bounds_written_before_value
      [OF n, where ut = None and T = "Int_t 32" and val = 5
         and s = "empty_store :: int store"
         and men = "\<lambda>(i::nat) prefix c. prefix" and this = 0
         and p = "\<lparr>type_of = Int_t 32, param = 0\<rparr>" and ?s1.0 = "empty_store :: int store"]
  show ?thesis
    using n
      inst [where mn = "Literal (Int_t 32) 0" and mx = "Literal (Float_t 32) 255"]
      inst [where mn = "Literal (Int_t 32) 0" and mx = Undefined]
      inst [where mn = Undefined and mx = "Literal (Int_t 32) 255"]
    by (elim conjE) (simp add: next_addr_empty_store)
qed

subsection \<open>The value\<close>

text \<open>
  C4. \<^verbatim>\<open>set(v)\<close> never fails and \<^verbatim>\<open>get()\<close> then returns \<open>v\<close>, in every store,
  so whatever bounds the record holds; the bounds are left as they were.
\<close>

theorem set_get_roundtrip:
  "fst (set_Param p v s) = Inr ()
   \<and> get_Param p (snd (set_Param p v s)) = Some v
   \<and> get_min_value p (snd (set_Param p v s)) = get_min_value p s
   \<and> get_max_value p (snd (set_Param p v s)) = get_max_value p s"
  by (simp add: set_Param_def)

lemma set_out_of_range_example:
  "observe \<lparr>type_of = Int_t 32, param = 0\<rparr>
     (snd (set_Param \<lparr>type_of = Int_t 32, param = 0\<rparr> 1000
        (snd (Param_string_val_min_max None (Int_t 32) ''threshold'' 5
               (Literal (Int_t 32) 0) (Literal (Int_t 32) 255) (empty_store :: int store))))) =
     (Literal (Int_t 32) 0, Literal (Int_t 32) 255, Some 1000)"
  by (simp add: Param_string_val_min_max_typed [of None _ "Int_t 32" _ "Int_t 32"]
      Param_init_result next_addr_empty_store set_range_typed [of None _ "Int_t 32" _ "Int_t 32"]
      set_Param_def observe_def)

subsection \<open>Copies of a handle\<close>

text \<open>
  C5. A copy of a handle refers to the record of the original: a value set through
  the copy is read through the original (and the other way round), and the
  expression forms of both are the same variable node, over that one record.
\<close>

theorem copy_shares_record:
  "get_Param p (snd (set_Param (Param_copy p) v s)) = Some v
   \<and> get_Param (Param_copy p) (snd (set_Param p v s)) = Some v
   \<and> operator_Expr (Param_copy p) s = operator_Expr p s
   \<and> Variable_param (operator_Expr p s) = Some (param p)
   \<and> Variable_param (operator_Expr (Param_copy p) s) = Some (param p)"
  by (simp add: set_Param_def Param_copy_def operator_Expr_def Variable_make_def
      name_Param_def)

subsection \<open>The signature argument\<close>

text \<open>
  C7. The argument form of a handle carries the record's name, the kind
  \<open>InputScalar\<close>, the tag of the handle's type, rank 0, the record's scalar
  expression and the stored minimum and maximum. Kind and rank do not depend on
  the handle.
\<close>

theorem operator_Argument_fields:
  "argument_name (operator_Argument p s) = name_Param p s
   \<and> argument_kind_of (operator_Argument p s) = InputScalar
   \<and> argument_type (operator_Argument p s) = type_of p
   \<and> argument_dimensions (operator_Argument p s) = 0
   \<and> argument_def (operator_Argument p s) = Parameter_get_scalar_expr (param p) s
   \<and> argument_min (operator_Argument p s) = get_min_value p s
   \<and> argument_max (operator_Argument p s) = get_max_value p s"
  by (simp add: operator_Argument_def Argument_def type_Param_def get_min_value_def
      get_max_value_def)

subsection \<open>The implicit user context\<close>

text \<open>
  C3, as stated, fails: the second of two calls of \<^verbatim>\<open>user_context_value()\<close>,
  starting from the empty store, returns a variable over another record than the
  first.
\<close>

theorem user_context_value_not_shared:
  "result_param (fst (user_context_value (empty_store :: int store))) \<noteq>
   result_param (fst (user_context_value (snd (user_context_value (empty_store :: int store)))))"
  by (simp add: user_context_value_result result_param_def empty_store_def)

text \<open>
  No operation of \<^verbatim>\<open>Param.h\<close> hands an address out twice: the next address
  only grows.
\<close>

lemma next_addr_grows:
  "next_addr s \<le> next_addr (snd (set_Param p v s))"
  "next_addr s \<le> next_addr (snd (set_default_value p v s))"
  "next_addr s \<le> next_addr (snd (set_min_value ut p e s))"
  "next_addr s \<le> next_addr (snd (set_max_value ut p e s))"
  "next_addr s \<le> next_addr (snd (set_range ut p e e' s))"
  "next_addr s < next_addr (snd (Param_init T n ex s))"
  "next_addr s < next_addr (snd (user_context_value s))"
  by (simp_all add: set_Param_def set_default_value_def set_min_value_def set_max_value_def
      set_range_def then_do_def Parameter_set_scalar_def Parameter_set_default_def
      Parameter_set_min_value_def Parameter_set_max_value_def Param_init_result
      user_context_value_result split: option.splits)

text \<open>
  C3, amended. Every call of \<^verbatim>\<open>user_context_value()\<close> creates a new record
  under the fixed name \<^verbatim>\<open>"__user_context"\<close>. In every store the call returns the
  variable node of the handle type and that name over the record it creates, and
  it creates the record with the same contents: the handle tag, output flag false,
  dimensions 0, the reserved name, the explicit-name flag true, no value and no
  bounds. Any two calls, one right after the other or the second in any later store
  (one whose next address is \<open>k\<close> past the one the first call left), return nodes
  of the same type and name over two distinct records created with equal contents,
  and the later call leaves the record of the earlier one as it finds it.
\<close>

theorem user_context_value_fresh_record:
  "fst (user_context_value s) = Inr (Variable Handle ''__user_context'' (next_addr s))
   \<and> result_param (fst (user_context_value s)) = Some (next_addr s)
   \<and> records (snd (user_context_value s)) (next_addr s) =
       \<lparr>pc_type = Handle, pc_is_output = False, pc_dimensions = 0,
        pc_name = ''__user_context'', pc_is_explicit_name = True, pc_value = None,
        pc_default_value = None, pc_min_value = Undefined, pc_max_value = Undefined\<rparr>
   \<and> fst (user_context_value (snd (user_context_value s))) =
       Inr (Variable Handle ''__user_context'' (Suc (next_addr s)))
   \<and> result_param (fst (user_context_value s)) \<noteq>
       result_param (fst (user_context_value (snd (user_context_value s))))
   \<and> records (snd (user_context_value (snd (user_context_value s)))) (next_addr s) =
       records (snd (user_context_value (snd (user_context_value s)))) (Suc (next_addr s))
   \<and> fst (user_context_value (s'\<lparr>next_addr := next_addr (snd (user_context_value s)) + k\<rparr>)) =
       Inr (Variable Handle ''__user_context'' (next_addr (snd (user_context_value s)) + k))
   \<and> result_param (fst (user_context_value s)) \<noteq>
       result_param
         (fst (user_context_value (s'\<lparr>next_addr := next_addr (snd (user_context_value s)) + k\<rparr>)))
   \<and> records
         (snd (user_context_value (s'\<lparr>next_addr := next_addr (snd (user_context_value s)) + k\<rparr>)))
         (next_addr (snd (user_context_value s)) + k) =
       records (snd (user_context_value s)) (next_addr s)
   \<and> records
         (snd (user_context_value (s'\<lparr>next_addr := next_addr (snd (user_context_value s)) + k\<rparr>)))
         (next_addr s) =
       records s' (next_addr s)"
  by (simp add: user_context_value_result result_param_def)

text \<open>
  C10. \<^verbatim>\<open>user_context_value()\<close> succeeds in every store. It returns a variable of
  the opaque handle type named \<^verbatim>\<open>"__user_context"\<close> over the record it has just
  created, and that record has the handle tag, output flag false, dimensions 0, the
  reserved name and the explicit-name flag true. The name check is in the
  constructors of \<^verbatim>\<open>Param\<close> only: \<^verbatim>\<open>Param<void *>("__user_context")\<close> in the
  same store fails.
\<close>

theorem user_context_value_never_fails:
  "fst (user_context_value s) = Inr (Variable Handle ''__user_context'' (next_addr s))
   \<and> (case fst (user_context_value s) of
        Inl e \<Rightarrow> False
      | Inr e \<Rightarrow> Expr_type ut e = Some Handle \<and> Variable_param e = Some (next_addr s))
   \<and> records (snd (user_context_value s)) (next_addr s) =
       \<lparr>pc_type = Handle, pc_is_output = False, pc_dimensions = 0,
        pc_name = ''__user_context'', pc_is_explicit_name = True, pc_value = None,
        pc_default_value = None, pc_min_value = Undefined, pc_max_value = Undefined\<rparr>
   \<and> fst (Param_string Handle ''__user_context'' s) = Inl (ReservedNameError check_name_message)"
  by (simp add: user_context_value_result Param_string_reserved)

end
